theory Spec2Isabelle
  imports Complex_Main
begin

section \<open>Alipay payment acquirer: data model\<close>

text \<open>
  The development embeds \<^verbatim>\<open>models/payment.py\<close>: the fee computation of the acquirer
  (\<^verbatim>\<open>alipay_compute_fees\<close>) and the three form methods of the transaction
  (\<^verbatim>\<open>_alipay_form_get_tx_from_data\<close>, \<^verbatim>\<open>_alipay_form_get_invalid_parameters\<close>,
  \<^verbatim>\<open>_alipay_form_validate\<close>). A leading underscore is not an Isabelle identifier, so
  the three form methods drop it.

  Numbers. The amounts and rates of the source are Python floats. They are modelled by
  exact rationals: every arithmetic operation of the source is the exact operation here,
  binary rounding is not modelled, and a float division by zero is the error
  \<open>ZeroDivisionError\<close>, as in Python. The values \<open>inf\<close> and \<open>nan\<close>, which only the
  conversion \<^verbatim>\<open>float(...)\<close> of a payload string can produce, are kept as values of their
  own (\<open>pyfloat\<close>).

  Logging calls have no effect on any result and are left out.
\<close>

subsection \<open>Python values\<close>

text \<open>
  A value read from the payload with \<^verbatim>\<open>data.get(key)\<close> is \<^verbatim>\<open>None\<close> or a string; a
  \<^verbatim>\<open>Char\<close> field of a record reads as \<^verbatim>\<open>False\<close> when unset and as a string otherwise.
  Equality on \<open>pyval\<close> is Python's \<^verbatim>\<open>==\<close> on these values: \<^verbatim>\<open>None\<close>, \<^verbatim>\<open>False\<close>
  and every string are pairwise different.
\<close>

datatype pyval = PyNone | PyFalse | PyStr string

text \<open>Truth value of a Python value in a condition.\<close>

fun py_truthy :: "pyval \<Rightarrow> bool" where
  "py_truthy PyNone = False"
| "py_truthy PyFalse = False"
| "py_truthy (PyStr s) = (s \<noteq> [])"

text \<open>The text a value contributes to a \<^verbatim>\<open>%s\<close> conversion.\<close>

fun py_str :: "pyval \<Rightarrow> string" where
  "py_str PyNone = ''None''"
| "py_str PyFalse = ''False''"
| "py_str (PyStr s) = s"

text \<open>The notification payload: string keys to string values.\<close>

type_synonym payload = "string \<rightharpoonup> string"

definition data_get :: "payload \<Rightarrow> string \<Rightarrow> pyval" where
  "data_get data k = (case data k of None \<Rightarrow> PyNone | Some v \<Rightarrow> PyStr v)"

datatype error = ValidationError string | ValueError | ZeroDivisionError

subsection \<open>Records\<close>

text \<open>
  The acquirer (\<^verbatim>\<open>payment.acquirer\<close>) with the fields the methods read.
  \<open>company_country_id\<close> is \<^verbatim>\<open>self.company_id.country_id.id\<close>: \<open>None\<close> when the
  company has no country.
\<close>

record acquirer =
  fees_active :: bool
  fees_dom_fixed :: rat
  fees_dom_var :: rat
  fees_int_fixed :: rat
  fees_int_var :: rat
  company_country_id :: "nat option"
  alipay_email_account :: pyval
  alipay_seller_account :: pyval

section \<open>Fee computation\<close>

text \<open>
  \<^verbatim>\<open>self.env['res.country'].browse(country_id)\<close>: the record set of that id, empty
  for \<^verbatim>\<open>None\<close> and for a falsy id.
\<close>

definition browse :: "nat option \<Rightarrow> nat option" where
  "browse country_id =
     (case country_id of None \<Rightarrow> None | Some i \<Rightarrow> if i = 0 then None else Some i)"

text \<open>Float division: Python raises on a zero divisor.\<close>

definition float_div :: "rat \<Rightarrow> rat \<Rightarrow> error + rat" where
  "float_div a b = (if b = 0 then Inl ZeroDivisionError else Inr (a / b))"

text \<open>The condition \<^verbatim>\<open>country and self.company_id.country_id.id == country.id\<close>.\<close>

definition is_domestic :: "acquirer \<Rightarrow> nat option \<Rightarrow> bool" where
  "is_domestic self country_id =
     (case browse country_id of None \<Rightarrow> False
      | Some c \<Rightarrow> company_country_id self = Some c)"

text \<open>The pair \<open>(percentage, fixed)\<close> that the two branches assign.\<close>

definition fee_rates :: "acquirer \<Rightarrow> nat option \<Rightarrow> rat \<times> rat" where
  "fee_rates self country_id =
     (if is_domestic self country_id
      then (fees_dom_var self, fees_dom_fixed self)
      else (fees_int_var self, fees_int_fixed self))"

definition alipay_compute_fees ::
  "acquirer \<Rightarrow> rat \<Rightarrow> nat option \<Rightarrow> nat option \<Rightarrow> error + rat" where
  "alipay_compute_fees self amount currency_id country_id =
     (if \<not> fees_active self then Inr 0
      else
        let (percentage, fixed) = fee_rates self country_id
        in float_div (percentage / 100 * amount + fixed) (1 - percentage / 100))"

section \<open>Transactions\<close>

text \<open>
  The state of a transaction. The \<^verbatim>\<open>Selection\<close> field is declared by the base model,
  outside this module; its values are the five of the specification.
\<close>

datatype tx_state = Draft | Pending | Done | Error | Cancel

text \<open>
  \<^verbatim>\<open>date_validate\<close>: unset, the string of the payload, or the clock reading of
  \<^verbatim>\<open>fields.datetime.now()\<close>.
\<close>

datatype date_value = DateFalse | DateStr string | DateTime nat

text \<open>
  The transaction (\<^verbatim>\<open>payment.transaction\<close>). \<open>currency_name\<close> is
  \<^verbatim>\<open>self.currency_id.name\<close>; \<open>payment_token_id\<close> is \<open>None\<close> for an empty record set
  and \<open>Some r\<close> for a token whose \<^verbatim>\<open>acquirer_ref\<close> is \<open>r\<close>; \<open>acquirer_id\<close> is the
  acquirer record itself.
\<close>

record transaction =
  reference :: pyval
  acquirer_reference :: pyval
  amount :: rat
  fees :: rat
  currency_name :: pyval
  payment_token_id :: "pyval option"
  acquirer_id :: acquirer
  state :: tx_state
  state_message :: pyval
  alipay_txn_type :: pyval
  date_validate :: date_value

subsection \<open>Looking the transaction up\<close>

text \<open>
  \<^verbatim>\<open>self.env['payment.transaction'].search([('reference', '=', reference)])\<close> over
  the transactions of the environment.
\<close>

definition search_reference :: "transaction list \<Rightarrow> pyval \<Rightarrow> transaction list" where
  "search_reference env r = filter (\<lambda>t. reference t = r) env"

text \<open>
  The method reads the environment and writes nothing; the environment is returned
  beside the result so that this can be stated.
\<close>

definition alipay_form_get_tx_from_data ::
  "transaction list \<Rightarrow> payload \<Rightarrow> (error + transaction) \<times> transaction list" where
  "alipay_form_get_tx_from_data env data =
     (let ref = data_get data ''item_number''; txn_id = data_get data ''txn_id'' in
      if \<not> py_truthy ref \<or> \<not> py_truthy txn_id then
        (Inl (ValidationError
           (''Alipay: received data with missing reference ('' @ py_str ref
            @ '') or txn_id ('' @ py_str txn_id @ '')'')), env)
      else
        let txs = search_reference env ref in
        if txs = [] \<or> length txs > 1 then
          (Inl (ValidationError
             (''Alipay: received data for reference '' @ py_str ref
              @ (if txs = [] then ''; no order found'' else ''; multiple order found''))), env)
        else (Inr (txs ! 0), env))"

subsection \<open>Converting a payload string to a float\<close>

text \<open>
  What \<^verbatim>\<open>float(s)\<close> returns: a finite number, an infinity or not-a-number.
\<close>

datatype pyfloat = Finite rat | PosInf | NegInf | NaN

text \<open>
  Python's \<^verbatim>\<open>float\<close> on a string of ASCII characters: surrounding white space is
  dropped, one sign is allowed, then \<^verbatim>\<open>inf\<close>, \<^verbatim>\<open>infinity\<close> or \<^verbatim>\<open>nan\<close> in any
  case, or a decimal numeral (digits with an optional point, at least one digit, and an
  optional exponent). Anything else is a \<open>ValueError\<close>.
\<close>

definition is_space :: "char \<Rightarrow> bool" where
  "is_space c = (c \<in> set [CHR '' '', CHR 0x09, CHR 0x0A, CHR 0x0B, CHR 0x0C, CHR 0x0D])"

definition strip :: "string \<Rightarrow> string" where
  "strip s = rev (dropWhile is_space (rev (dropWhile is_space s)))"

definition is_digit :: "char \<Rightarrow> bool" where
  "is_digit c = (48 \<le> (of_char c :: nat) \<and> (of_char c :: nat) \<le> 57)"

definition digits_val :: "string \<Rightarrow> nat" where
  "digits_val ds = foldl (\<lambda>n c. 10 * n + ((of_char c :: nat) - 48)) 0 ds"

definition to_lower :: "char \<Rightarrow> char" where
  "to_lower c =
     (case map_of (zip ''ABCDEFGHIJKLMNOPQRSTUVWXYZ'' ''abcdefghijklmnopqrstuvwxyz'') c of
        None \<Rightarrow> c
      | Some l \<Rightarrow> l)"

text \<open>An optional leading sign: whether it is a minus, and the rest.\<close>

fun split_sign :: "string \<Rightarrow> bool \<times> string" where
  "split_sign [] = (False, [])"
| "split_sign (c # cs) =
     (if c = CHR ''-'' then (True, cs)
      else if c = CHR ''+'' then (False, cs)
      else (False, c # cs))"

definition pow10 :: "int \<Rightarrow> rat" where
  "pow10 e = (if 0 \<le> e then 10 ^ nat e else 1 / 10 ^ nat (- e))"

text \<open>The exponent part: nothing, or \<^verbatim>\<open>e\<close>, an optional sign and at least one digit.\<close>

fun parse_exponent :: "string \<Rightarrow> int option" where
  "parse_exponent [] = Some 0"
| "parse_exponent (c # cs) =
     (if c = CHR ''e'' \<or> c = CHR ''E'' then
        (let (neg, ds) = split_sign cs in
         if ds \<noteq> [] \<and> list_all is_digit ds
         then Some (if neg then - int (digits_val ds) else int (digits_val ds))
         else None)
      else None)"

definition parse_decimal :: "string \<Rightarrow> rat option" where
  "parse_decimal s =
     (let ip = takeWhile is_digit s; r1 = dropWhile is_digit s;
          (fp, r2) = (case r1 of
                        [] \<Rightarrow> ([], [])
                      | c # r \<Rightarrow> if c = CHR ''.''
                                 then (takeWhile is_digit r, dropWhile is_digit r)
                                 else ([], r1))
      in if ip = [] \<and> fp = [] then None
         else case parse_exponent r2 of
                None \<Rightarrow> None
              | Some e \<Rightarrow> Some (of_nat (digits_val (ip @ fp)) * pow10 (e - int (length fp))))"

definition py_float :: "string \<Rightarrow> error + pyfloat" where
  "py_float s =
     (let (neg, body) = split_sign (strip s); low = map to_lower body in
      if low = ''inf'' \<or> low = ''infinity'' then Inr (if neg then NegInf else PosInf)
      else if low = ''nan'' then Inr NaN
      else case parse_decimal body of
             None \<Rightarrow> Inl ValueError
           | Some q \<Rightarrow> Inr (Finite (if neg then - q else q)))"

subsection \<open>Comparing at a precision\<close>

text \<open>
  Modelled from the spec: \<^verbatim>\<open>float_round\<close> of \<^verbatim>\<open>odoo.tools.float_utils\<close>, on which
  \<^verbatim>\<open>float_compare\<close> rests; the library is imported by the module and is not part of
  it. The specification speaks of the value a number rounds to at a precision of \<open>d\<close>
  decimal places: the nearest multiple of \<open>10\<^sup>-\<^sup>d\<close>, here with a tie going away
  from zero.
\<close>

definition float_round :: "rat \<Rightarrow> nat \<Rightarrow> rat" where
  "float_round v d = sgn v * of_int \<lfloor>\<bar>v\<bar> * 10 ^ d + 1 / 2\<rfloor> / 10 ^ d"

text \<open>
  Modelled from the spec: \<^verbatim>\<open>float_compare\<close> of \<^verbatim>\<open>odoo.tools.float_utils\<close>, imported
  by the module and not part of it. The specification describes it as a tolerance-based
  comparison at a number of decimal places under which two values are equal if they
  round to the same value at that precision: the result is 0 for equal rounded values,
  and -1 or 1 otherwise. A value that is not finite rounds to no finite value.
\<close>

fun float_compare :: "pyfloat \<Rightarrow> pyfloat \<Rightarrow> nat \<Rightarrow> int" where
  "float_compare (Finite a) (Finite b) d =
     (if float_round a d = float_round b d then 0
      else if float_round a d < float_round b d then - 1 else 1)"
| "float_compare NegInf (Finite b) d = - 1"
| "float_compare a b d = 1"

subsection \<open>Checking the notification against the transaction\<close>

text \<open>
  A component of a discrepancy: a Python value, a float, or the text that
  \<^verbatim>\<open>'%.2f' % x\<close> produces for the float \<open>x\<close> (kept as \<open>DFormat2 x\<close>).
\<close>

datatype dvalue = DVal pyval | DFloat rat | DFormat2 rat

type_synonym discrepancy = "string \<times> dvalue \<times> dvalue"

definition check_txn_id :: "transaction \<Rightarrow> payload \<Rightarrow> discrepancy list" where
  "check_txn_id self data =
     (if py_truthy (acquirer_reference self)
         \<and> data_get data ''txn_id'' \<noteq> acquirer_reference self
      then [(''txn_id'', DVal (data_get data ''txn_id''), DVal (acquirer_reference self))]
      else [])"

text \<open>\<^verbatim>\<open>float(data.get('mc_gross', '0.0'))\<close>.\<close>

definition mc_gross_float :: "payload \<Rightarrow> error + pyfloat" where
  "mc_gross_float data =
     py_float (case data ''mc_gross'' of None \<Rightarrow> ''0.0'' | Some v \<Rightarrow> v)"

definition check_mc_gross :: "transaction \<Rightarrow> payload \<Rightarrow> error + discrepancy list" where
  "check_mc_gross self data =
     (case mc_gross_float data of
        Inl e \<Rightarrow> Inl e
      | Inr g \<Rightarrow>
          Inr (if float_compare g (Finite (amount self + fees self)) 2 \<noteq> 0
               then [(''mc_gross'', DVal (data_get data ''mc_gross''), DFormat2 (amount self))]
               else []))"

definition check_mc_currency :: "transaction \<Rightarrow> payload \<Rightarrow> discrepancy list" where
  "check_mc_currency self data =
     (if data_get data ''mc_currency'' \<noteq> currency_name self
      then [(''mc_currency'', DVal (data_get data ''mc_currency''), DVal (currency_name self))]
      else [])"

definition check_handling_amount ::
  "transaction \<Rightarrow> payload \<Rightarrow> error + discrepancy list" where
  "check_handling_amount self data =
     (case data ''handling_amount'' of
        None \<Rightarrow> Inr []
      | Some h \<Rightarrow>
          (case py_float h of
             Inl e \<Rightarrow> Inl e
           | Inr hv \<Rightarrow>
               Inr (if float_compare hv (Finite (fees self)) 2 \<noteq> 0
                    then [(''handling_amount'', DVal (PyStr h), DFloat (fees self))]
                    else [])))"

definition check_payer_id :: "transaction \<Rightarrow> payload \<Rightarrow> discrepancy list" where
  "check_payer_id self data =
     (case payment_token_id self of
        None \<Rightarrow> []
      | Some acquirer_ref \<Rightarrow>
          if data_get data ''payer_id'' \<noteq> acquirer_ref
          then [(''payer_id'', DVal (data_get data ''payer_id''), DVal acquirer_ref)]
          else [])"

definition check_receiver_id :: "transaction \<Rightarrow> payload \<Rightarrow> discrepancy list" where
  "check_receiver_id self data =
     (if py_truthy (data_get data ''receiver_id'')
         \<and> py_truthy (alipay_seller_account (acquirer_id self))
         \<and> data_get data ''receiver_id'' \<noteq> alipay_seller_account (acquirer_id self)
      then [(''receiver_id'', DVal (data_get data ''receiver_id''),
             DVal (alipay_seller_account (acquirer_id self)))]
      else [])"

definition check_receiver_email :: "transaction \<Rightarrow> payload \<Rightarrow> discrepancy list" where
  "check_receiver_email self data =
     (if \<not> py_truthy (data_get data ''receiver_id'')
         \<or> \<not> py_truthy (alipay_seller_account (acquirer_id self))
      then
        (if data_get data ''receiver_email'' \<noteq> alipay_email_account (acquirer_id self)
         then [(''receiver_email'', DVal (data_get data ''receiver_email''),
                DVal (alipay_email_account (acquirer_id self)))]
         else [])
      else [])"

text \<open>
  The checks run in the order of the source, each appending to
  \<^verbatim>\<open>invalid_parameters\<close>; a \<open>ValueError\<close> of one of the two conversions leaves the
  method at that point.
\<close>

definition alipay_form_get_invalid_parameters ::
  "transaction \<Rightarrow> payload \<Rightarrow> error + discrepancy list" where
  "alipay_form_get_invalid_parameters self data =
     (let invalid_parameters = check_txn_id self data in
      case check_mc_gross self data of
        Inl e \<Rightarrow> Inl e
      | Inr gross \<Rightarrow>
          let invalid_parameters = invalid_parameters @ gross @ check_mc_currency self data in
          (case check_handling_amount self data of
             Inl e \<Rightarrow> Inl e
           | Inr handling \<Rightarrow>
               Inr (invalid_parameters @ handling @ check_payer_id self data
                    @ check_receiver_id self data @ check_receiver_email self data)))"

subsection \<open>Applying the status of the notification\<close>

text \<open>One entry of the dictionary given to \<^verbatim>\<open>write\<close>.\<close>

datatype field_value =
    Set_acquirer_reference pyval
  | Set_alipay_txn_type pyval
  | Set_state tx_state
  | Set_state_message pyval
  | Set_date_validate date_value

fun write_field :: "transaction \<Rightarrow> field_value \<Rightarrow> transaction" where
  "write_field t (Set_acquirer_reference v) = t\<lparr>acquirer_reference := v\<rparr>"
| "write_field t (Set_alipay_txn_type v) = t\<lparr>alipay_txn_type := v\<rparr>"
| "write_field t (Set_state v) = t\<lparr>state := v\<rparr>"
| "write_field t (Set_state_message v) = t\<lparr>state_message := v\<rparr>"
| "write_field t (Set_date_validate v) = t\<lparr>date_validate := v\<rparr>"

text \<open>
  \<^verbatim>\<open>self.write(res)\<close> stores each value as it is given and returns \<^verbatim>\<open>True\<close>; the
  record after the write is returned beside it. (\<open>write\<close> is a keyword of Isabelle,
  hence the name \<open>write_vals\<close>.)
\<close>

definition write_vals :: "transaction \<Rightarrow> field_value list \<Rightarrow> bool \<times> transaction" where
  "write_vals self vals = (True, foldl write_field self vals)"

text \<open>\<open>now\<close> is the reading of the clock, \<^verbatim>\<open>fields.datetime.now()\<close>.\<close>

definition alipay_form_validate :: "nat \<Rightarrow> transaction \<Rightarrow> payload \<Rightarrow> bool \<times> transaction" where
  "alipay_form_validate now self data =
     (let status = data_get data ''payment_status'';
          res = [Set_acquirer_reference (data_get data ''txn_id''),
                 Set_alipay_txn_type (data_get data ''payment_type'')]
      in
      if status \<in> set [PyStr ''Completed'', PyStr ''Processed''] then
        write_vals self (res @ [Set_state Done,
          Set_date_validate (case data ''payment_date'' of
                               None \<Rightarrow> DateTime now | Some d \<Rightarrow> DateStr d)])
      else if status \<in> set [PyStr ''Pending'', PyStr ''Expired''] then
        write_vals self (res @ [Set_state Pending,
          Set_state_message (case data ''pending_reason'' of
                               None \<Rightarrow> PyStr [] | Some r \<Rightarrow> PyStr r)])
      else
        let err = ''Received unrecognized status for Alipay payment ''
                    @ py_str (reference self) @ '': '' @ py_str status @ '', set as error''
        in write_vals self (res @ [Set_state Error, Set_state_message (PyStr err)]))"

section \<open>Example records\<close>

text \<open>
  An acquirer with the default rates of the module and the seller email of the
  specification's example, and a transaction of amount 100 with fees 3.86 in USD.
\<close>

definition ex_acquirer :: acquirer where
  "ex_acquirer =
     \<lparr>fees_active = True, fees_dom_fixed = 35 / 100, fees_dom_var = 34 / 10,
      fees_int_fixed = 35 / 100, fees_int_var = 39 / 10, company_country_id = Some 1,
      alipay_email_account = PyStr ''shop@x.com'', alipay_seller_account = PyFalse\<rparr>"

definition ex_tx :: transaction where
  "ex_tx =
     \<lparr>reference = PyStr ''SO001'', acquirer_reference = PyFalse, amount = 100,
      fees = 386 / 100, currency_name = PyStr ''USD'', payment_token_id = None,
      acquirer_id = ex_acquirer, state = Draft, state_message = PyFalse,
      alipay_txn_type = PyFalse, date_validate = DateFalse\<rparr>"

definition ex_data :: payload where
  "ex_data = [''mc_gross'' \<mapsto> ''103.86'', ''mc_currency'' \<mapsto> ''USD'',
              ''receiver_email'' \<mapsto> ''shop@x.com'']"

text \<open>Notifications: one that names the transaction, and one for each kind of status.\<close>

definition ex_notification :: payload where
  "ex_notification = [''item_number'' \<mapsto> ''SO001'', ''txn_id'' \<mapsto> ''T42'']"

definition ex_completed :: payload where
  "ex_completed = [''txn_id'' \<mapsto> ''T42'', ''payment_type'' \<mapsto> ''instant'',
                   ''payment_status'' \<mapsto> ''Completed'', ''payment_date'' \<mapsto> ''2017-01-01'']"

definition ex_pending :: payload where
  "ex_pending = [''txn_id'' \<mapsto> ''T42'', ''payment_type'' \<mapsto> ''echeck'',
                 ''payment_status'' \<mapsto> ''Pending'']"

definition ex_unrecognized :: payload where
  "ex_unrecognized = [''txn_id'' \<mapsto> ''T42'', ''payment_status'' \<mapsto> ''Foo'']"




section \<open>Properties of the fee computation\<close>

lemma is_domestic_iff:
  "is_domestic self c \<longleftrightarrow> (browse c \<noteq> None \<and> company_country_id self = browse c)"
  by (auto simp: is_domestic_def split: option.splits)

lemma ex_acquirer_domestic: "fee_rates ex_acquirer (Some 1) = (34 / 10, 35 / 100)"
  by (simp add: fee_rates_def is_domestic_def browse_def ex_acquirer_def)

text \<open>
  Claim C6. With the fees switched off (\<open>fees_active\<close> false) the computation returns
  0.0 for every amount, currency and payer country; no rate is read and nothing is
  divided, so the result is 0.0 also when a configured percentage is 100.
\<close>

theorem compute_fees_disabled:
  "\<not> fees_active self \<Longrightarrow> alipay_compute_fees self amt currency_id country_id = Inr 0"
  by (simp add: alipay_compute_fees_def)

theorem compute_fees_disabled_witness:
  "\<not> fees_active (ex_acquirer\<lparr>fees_active := False\<rparr>) \<and>
   alipay_compute_fees (ex_acquirer\<lparr>fees_active := False\<rparr>) 100 None (Some 1) = Inr 0"
  using compute_fees_disabled [of "ex_acquirer\<lparr>fees_active := False\<rparr>" 100 None "Some 1"]
  by (simp add: ex_acquirer_def)

text \<open>
  Claim C5, as stated: with the fees enabled the computation returns the value of the
  formula for every configuration. It does not when the selected percentage is 100:
  the divisor \<open>1 - 100 / 100\<close> is zero and the division raises.
\<close>

theorem compute_fees_formula_counterexample:
  "fees_active (ex_acquirer\<lparr>fees_int_var := 100\<rparr>) \<and>
   fee_rates (ex_acquirer\<lparr>fees_int_var := 100\<rparr>) None = (100, 35 / 100) \<and>
   alipay_compute_fees (ex_acquirer\<lparr>fees_int_var := 100\<rparr>) 1 None None
     = Inl ZeroDivisionError"
  by (simp add: ex_acquirer_def alipay_compute_fees_def fee_rates_def is_domestic_def
        browse_def float_div_def)

text \<open>
  Claim C5, amended. With the fees enabled, the selected pair is the domestic one when
  the payer's country is a non-empty record and its id is the id of the company's
  country, and the international one otherwise; the result is
  \<open>(percentage / 100 * amount + fixed) / (1 - percentage / 100)\<close> for the selected pair
  whenever the selected percentage is not 100, and the error \<open>ZeroDivisionError\<close> when
  it is 100.
\<close>

theorem compute_fees_formula:
  assumes "fees_active self" and "fee_rates self country_id = (percentage, fixed)"
  shows "(percentage, fixed) =
           (if browse country_id \<noteq> None \<and> company_country_id self = browse country_id
            then (fees_dom_var self, fees_dom_fixed self)
            else (fees_int_var self, fees_int_fixed self))
         \<and> alipay_compute_fees self amt currency_id country_id =
           (if percentage = 100 then Inl ZeroDivisionError
            else Inr ((percentage / 100 * amt + fixed) / (1 - percentage / 100)))"
proof
  show "(percentage, fixed) =
           (if browse country_id \<noteq> None \<and> company_country_id self = browse country_id
            then (fees_dom_var self, fees_dom_fixed self)
            else (fees_int_var self, fees_int_fixed self))"
    using assms(2) by (simp add: fee_rates_def is_domestic_iff)
next
  have "1 - percentage / 100 = 0 \<longleftrightarrow> percentage = 100" by auto
  then show "alipay_compute_fees self amt currency_id country_id =
           (if percentage = 100 then Inl ZeroDivisionError
            else Inr ((percentage / 100 * amt + fixed) / (1 - percentage / 100)))"
    using assms by (simp add: alipay_compute_fees_def float_div_def)
qed

theorem compute_fees_formula_witness:
  "fees_active ex_acquirer \<and> fee_rates ex_acquirer (Some 1) = (34 / 10, 35 / 100) \<and>
   alipay_compute_fees ex_acquirer 100 None (Some 1)
     = Inr ((34 / 10 / 100 * 100 + 35 / 100) / (1 - 34 / 10 / 100))"
proof -
  have a: "fees_active ex_acquirer" by (simp add: ex_acquirer_def)
  show ?thesis
    using a ex_acquirer_domestic
      compute_fees_formula [OF a ex_acquirer_domestic, of 100 None]
    by simp
qed

text \<open>
  Claim C7, as stated: the fee grows with the amount for every positive percentage and
  positive fixed rate. With a percentage above 100 the divisor \<open>1 - percentage / 100\<close>
  is negative and the fee falls as the amount grows: at percentage 200 and fixed rate 1
  the fee of amount 0 is -1 and the fee of amount 1 is -3.
\<close>

theorem compute_fees_monotone_counterexample:
  "fees_active (ex_acquirer\<lparr>fees_int_fixed := 1, fees_int_var := 200\<rparr>) \<and>
   fee_rates (ex_acquirer\<lparr>fees_int_fixed := 1, fees_int_var := 200\<rparr>) None = (200, 1) \<and>
   alipay_compute_fees (ex_acquirer\<lparr>fees_int_fixed := 1, fees_int_var := 200\<rparr>) 0 None None
     = Inr (- 1) \<and>
   alipay_compute_fees (ex_acquirer\<lparr>fees_int_fixed := 1, fees_int_var := 200\<rparr>) 1 None None
     = Inr (- 3) \<and>
   (0 :: rat) \<le> 1 \<and> \<not> (- 1 :: rat) \<le> - 3"
  by (simp add: ex_acquirer_def alipay_compute_fees_def fee_rates_def is_domestic_def
        browse_def float_div_def)

text \<open>
  Claim C7, amended. With the fees enabled and the same country selection, for a
  selected percentage strictly between 0 and 100 and a positive fixed rate, both
  computations return a fee, and \<open>a1 \<le> a2\<close> gives
  \<open>computeFees(a1) \<le> computeFees(a2)\<close>.
\<close>

theorem compute_fees_monotone:
  assumes "fees_active self" and "fee_rates self country_id = (percentage, fixed)"
    and "0 < percentage" and "percentage < 100" and "0 < fixed" and "a1 \<le> a2"
  shows "\<exists>f1 f2. alipay_compute_fees self a1 currency_id country_id = Inr f1
           \<and> alipay_compute_fees self a2 currency_id country_id = Inr f2 \<and> f1 \<le> f2"
proof -
  let ?d = "1 - percentage / 100"
  have d: "0 < ?d" using assms(4) by simp
  have num: "percentage / 100 * a1 + fixed \<le> percentage / 100 * a2 + fixed"
    using assms(3,6) by (simp add: mult_left_mono)
  have le: "(percentage / 100 * a1 + fixed) / ?d \<le> (percentage / 100 * a2 + fixed) / ?d"
    using num d by (simp add: divide_right_mono)
  have r: "alipay_compute_fees self a currency_id country_id
             = Inr ((percentage / 100 * a + fixed) / ?d)" for a
    using assms(1,2) d by (simp add: alipay_compute_fees_def float_div_def)
  show ?thesis using le by (simp add: r)
qed

theorem compute_fees_monotone_witness:
  "fees_active ex_acquirer \<and> fee_rates ex_acquirer (Some 1) = (34 / 10, 35 / 100) \<and>
   (0 :: rat) < 34 / 10 \<and> (34 / 10 :: rat) < 100 \<and> (0 :: rat) < 35 / 100 \<and> (50 :: rat) \<le> 100 \<and>
   (\<exists>f1 f2. alipay_compute_fees ex_acquirer 50 None (Some 1) = Inr f1
       \<and> alipay_compute_fees ex_acquirer 100 None (Some 1) = Inr f2 \<and> f1 \<le> f2)"
proof -
  have a: "fees_active ex_acquirer" by (simp add: ex_acquirer_def)
  have b: "(0 :: rat) < 34 / 10" "(34 / 10 :: rat) < 100" "(0 :: rat) < 35 / 100"
    "(50 :: rat) \<le> 100" by simp_all
  show ?thesis
    using a ex_acquirer_domestic b
      compute_fees_monotone [OF a ex_acquirer_domestic b, of None]
    by blast
qed

text \<open>
  Claim C8, as stated: the fee of amount 100 at the domestic pair (fixed 0.35,
  percentage 3.4) is 3.86... The code returns \<open>(0.034 * 100 + 0.35) / (1 - 0.034)\<close>,
  which is \<open>3.75 / 0.966 = 625 / 161\<close>, and that is not below 3.87.
\<close>

theorem compute_fees_example_counterexample:
  "alipay_compute_fees ex_acquirer 100 None (Some 1) = Inr (625 / 161) \<and>
   \<not> (625 / 161 :: rat) < 387 / 100"
  by (simp add: ex_acquirer_def alipay_compute_fees_def fee_rates_def is_domestic_def
        browse_def float_div_def)

text \<open>
  Claim C8, amended. With the fees enabled and the pair (fixed 0.35, percentage 3.4)
  selected, the fee of amount 100 is \<open>(0.034 * 100 + 0.35) / (1 - 0.034)\<close>, whose
  decimal value is 3.88... (at least 3.88 and below 3.89).
\<close>

theorem compute_fees_example:
  assumes "fees_active self" and "fee_rates self country_id = (34 / 10, 35 / 100)"
  shows "\<exists>f. alipay_compute_fees self 100 currency_id country_id = Inr f
           \<and> f = (34 / 1000 * 100 + 35 / 100) / (1 - 34 / 1000)
           \<and> 388 / 100 \<le> f \<and> f < 389 / 100"
proof -
  have "alipay_compute_fees self 100 currency_id country_id
          = Inr ((34 / 1000 * 100 + 35 / 100) / (1 - 34 / 1000))"
    using assms by (simp add: alipay_compute_fees_def float_div_def)
  moreover have "(388 / 100 :: rat) \<le> (34 / 1000 * 100 + 35 / 100) / (1 - 34 / 1000)"
    by simp
  moreover have "(34 / 1000 * 100 + 35 / 100) / (1 - 34 / 1000) < (389 / 100 :: rat)"
    by simp
  ultimately show ?thesis by blast
qed

theorem compute_fees_example_witness:
  "fees_active ex_acquirer \<and> fee_rates ex_acquirer (Some 1) = (34 / 10, 35 / 100) \<and>
   (\<exists>f. alipay_compute_fees ex_acquirer 100 None (Some 1) = Inr f
           \<and> f = (34 / 1000 * 100 + 35 / 100) / (1 - 34 / 1000)
           \<and> 388 / 100 \<le> f \<and> f < 389 / 100)"
proof -
  have a: "fees_active ex_acquirer" by (simp add: ex_acquirer_def)
  show ?thesis
    using a ex_acquirer_domestic compute_fees_example [OF a ex_acquirer_domestic, of None]
    by blast
qed

section \<open>Properties of the transaction lookup\<close>

text \<open>
  Claim C3. The lookup raises \<open>ValidationError\<close> (and no other error) exactly when the
  reference (\<^verbatim>\<open>item_number\<close>) or \<^verbatim>\<open>txn_id\<close> of the payload is absent or empty, or
  when the search by that reference finds no transaction or more than one; when both
  are present and exactly one transaction matches, that transaction is returned; the
  transactions of the environment are the same after the call.
\<close>

theorem get_tx_from_data:
  "((\<exists>msg. fst (alipay_form_get_tx_from_data env data) = Inl (ValidationError msg)) \<longleftrightarrow>
      (\<not> py_truthy (data_get data ''item_number'') \<or> \<not> py_truthy (data_get data ''txn_id'')
       \<or> length (search_reference env (data_get data ''item_number'')) \<noteq> 1))
   \<and> (\<forall>e. fst (alipay_form_get_tx_from_data env data) = Inl e \<longrightarrow> (\<exists>msg. e = ValidationError msg))
   \<and> (\<forall>t. py_truthy (data_get data ''item_number'') \<and> py_truthy (data_get data ''txn_id'')
          \<and> search_reference env (data_get data ''item_number'') = [t]
        \<longrightarrow> fst (alipay_form_get_tx_from_data env data) = Inr t)
   \<and> snd (alipay_form_get_tx_from_data env data) = env"
proof -
  let ?txs = "search_reference env (data_get data ''item_number'')"
  have len: "length ?txs \<noteq> 1 \<longleftrightarrow> (?txs = [] \<or> length ?txs > 1)"
    by (cases ?txs) auto
  show ?thesis
    unfolding len
    by (auto simp: alipay_form_get_tx_from_data_def Let_def)
qed

theorem get_tx_from_data_witness:
  "py_truthy (data_get ex_notification ''item_number'')
   \<and> py_truthy (data_get ex_notification ''txn_id'')
   \<and> search_reference [ex_tx] (data_get ex_notification ''item_number'') = [ex_tx]
   \<and> alipay_form_get_tx_from_data [ex_tx] ex_notification = (Inr ex_tx, [ex_tx])"
proof -
  have a: "py_truthy (data_get ex_notification ''item_number'')"
    and b: "py_truthy (data_get ex_notification ''txn_id'')"
    and c: "search_reference [ex_tx] (data_get ex_notification ''item_number'') = [ex_tx]"
    by (simp_all add: ex_notification_def data_get_def search_reference_def ex_tx_def)
  from get_tx_from_data [of "[ex_tx]" ex_notification] a b c
  have "fst (alipay_form_get_tx_from_data [ex_tx] ex_notification) = Inr ex_tx"
    and "snd (alipay_form_get_tx_from_data [ex_tx] ex_notification) = [ex_tx]"
    by blast+
  then have "alipay_form_get_tx_from_data [ex_tx] ex_notification = (Inr ex_tx, [ex_tx])"
    by (simp add: prod_eq_iff)
  with a b c show ?thesis by blast
qed

text \<open>The three failures on concrete environments, with the messages of the source.\<close>

lemma get_tx_no_order:
  "fst (alipay_form_get_tx_from_data [] ex_notification)
     = Inl (ValidationError ''Alipay: received data for reference SO001; no order found'')"
  by (simp add: alipay_form_get_tx_from_data_def Let_def ex_notification_def data_get_def
        search_reference_def)

lemma get_tx_multiple_order:
  "fst (alipay_form_get_tx_from_data [ex_tx, ex_tx\<lparr>amount := 5\<rparr>] ex_notification)
     = Inl (ValidationError
              ''Alipay: received data for reference SO001; multiple order found'')"
  by (simp add: alipay_form_get_tx_from_data_def Let_def ex_notification_def data_get_def
        search_reference_def ex_tx_def)

lemma get_tx_missing_txn_id:
  "fst (alipay_form_get_tx_from_data [ex_tx] [''item_number'' \<mapsto> ''SO001''])
     = Inl (ValidationError
              ''Alipay: received data with missing reference (SO001) or txn_id (None)'')"
  by (simp add: alipay_form_get_tx_from_data_def Let_def data_get_def)

section \<open>Properties of the status update\<close>

text \<open>
  Claim C1. For every transaction and payload the write returns without an error and
  stores \<^verbatim>\<open>txn_id\<close> of the payload as \<open>acquirer_reference\<close> and \<^verbatim>\<open>payment_type\<close> as
  \<open>alipay_txn_type\<close>, whatever the status. The status \<^verbatim>\<open>Completed\<close> or \<^verbatim>\<open>Processed\<close>
  gives state \<open>Done\<close> with \<open>date_validate\<close> the \<^verbatim>\<open>payment_date\<close> of the payload, or the
  clock reading when it is absent; \<^verbatim>\<open>Pending\<close> or \<^verbatim>\<open>Expired\<close> gives state \<open>Pending\<close>
  with \<open>state_message\<close> the \<^verbatim>\<open>pending_reason\<close>, or the empty string when it is absent;
  every other status, an absent one included, gives state \<open>Error\<close> with a message that
  names the reference of the transaction and the status received.
\<close>

theorem form_validate_status:
  "fst (alipay_form_validate now self data) = True
   \<and> acquirer_reference (snd (alipay_form_validate now self data)) = data_get data ''txn_id''
   \<and> alipay_txn_type (snd (alipay_form_validate now self data)) = data_get data ''payment_type''
   \<and> (data ''payment_status'' = Some ''Completed'' \<or> data ''payment_status'' = Some ''Processed''
        \<longrightarrow> state (snd (alipay_form_validate now self data)) = Done
          \<and> date_validate (snd (alipay_form_validate now self data))
              = (case data ''payment_date'' of None \<Rightarrow> DateTime now | Some d \<Rightarrow> DateStr d))
   \<and> (data ''payment_status'' = Some ''Pending'' \<or> data ''payment_status'' = Some ''Expired''
        \<longrightarrow> state (snd (alipay_form_validate now self data)) = Pending
          \<and> state_message (snd (alipay_form_validate now self data))
              = (case data ''pending_reason'' of None \<Rightarrow> PyStr [] | Some r \<Rightarrow> PyStr r))
   \<and> (data ''payment_status''
          \<notin> {Some ''Completed'', Some ''Processed'', Some ''Pending'', Some ''Expired''}
        \<longrightarrow> state (snd (alipay_form_validate now self data)) = Error
          \<and> state_message (snd (alipay_form_validate now self data))
              = PyStr (''Received unrecognized status for Alipay payment ''
                       @ py_str (reference self) @ '': ''
                       @ py_str (data_get data ''payment_status'') @ '', set as error''))"
  by (cases "data ''payment_status''")
     (simp_all add: alipay_form_validate_def Let_def data_get_def write_vals_def)

theorem form_validate_status_witness:
  "ex_completed ''payment_status'' = Some ''Completed''
   \<and> state (snd (alipay_form_validate 7 ex_tx ex_completed)) = Done
   \<and> date_validate (snd (alipay_form_validate 7 ex_tx ex_completed)) = DateStr ''2017-01-01''
   \<and> acquirer_reference (snd (alipay_form_validate 7 ex_tx ex_completed)) = PyStr ''T42''
   \<and> alipay_txn_type (snd (alipay_form_validate 7 ex_tx ex_completed)) = PyStr ''instant''
   \<and> ex_pending ''payment_status'' = Some ''Pending''
   \<and> state (snd (alipay_form_validate 7 ex_tx ex_pending)) = Pending
   \<and> state_message (snd (alipay_form_validate 7 ex_tx ex_pending)) = PyStr []
   \<and> ex_unrecognized ''payment_status''
        \<notin> {Some ''Completed'', Some ''Processed'', Some ''Pending'', Some ''Expired''}
   \<and> state (snd (alipay_form_validate 7 ex_tx ex_unrecognized)) = Error
   \<and> state_message (snd (alipay_form_validate 7 ex_tx ex_unrecognized))
        = PyStr ''Received unrecognized status for Alipay payment SO001: Foo, set as error''"
proof -
  have c: "ex_completed ''payment_status'' = Some ''Completed''"
      "ex_completed ''payment_date'' = Some ''2017-01-01''"
      "data_get ex_completed ''txn_id'' = PyStr ''T42''"
      "data_get ex_completed ''payment_type'' = PyStr ''instant''"
    by (simp_all add: ex_completed_def data_get_def)
  have p: "ex_pending ''payment_status'' = Some ''Pending''"
      "ex_pending ''pending_reason'' = None"
    by (simp_all add: ex_pending_def)
  have u: "ex_unrecognized ''payment_status''
             \<notin> {Some ''Completed'', Some ''Processed'', Some ''Pending'', Some ''Expired''}"
      "data_get ex_unrecognized ''payment_status'' = PyStr ''Foo''"
      "reference ex_tx = PyStr ''SO001''"
    by (simp_all add: ex_unrecognized_def data_get_def ex_tx_def)
  show ?thesis
    using form_validate_status [of 7 ex_tx ex_completed]
      form_validate_status [of 7 ex_tx ex_pending]
      form_validate_status [of 7 ex_tx ex_unrecognized] c p u
    by simp
qed

section \<open>Properties of the notification checks\<close>

subsection \<open>The conversion on concrete strings\<close>

lemmas py_float_unfold =
  py_float_def strip_def is_space_def parse_decimal_def is_digit_def digits_val_def
  pow10_def to_lower_def



lemma py_float_abc: "py_float ''abc'' = Inl ValueError"
  by (simp add: py_float_unfold)

lemma py_float_error: "py_float s = Inl e \<Longrightarrow> e = ValueError"
  by (auto simp: py_float_def Let_def split: prod.splits if_splits option.splits)

subsection \<open>The list that the checks build\<close>










subsection \<open>Rounding and comparison\<close>



subsection \<open>The checks on the example records\<close>




subsection \<open>The seller identity\<close>



subsection \<open>Gross amount and currency\<close>





subsection \<open>Strings that are no numbers\<close>

text \<open>
  Claim C10. If the \<^verbatim>\<open>mc_gross\<close> of the payload, or a \<^verbatim>\<open>handling_amount\<close> that is
  present, is a string that \<^verbatim>\<open>float\<close> rejects, the method raises \<open>ValueError\<close> and
  returns no list of discrepancies; such payloads exist (the witness below).
\<close>

theorem unparsable_amount_raises:
  assumes "(\<exists>s. data ''mc_gross'' = Some s \<and> py_float s = Inl ValueError)
           \<or> (\<exists>s. data ''handling_amount'' = Some s \<and> py_float s = Inl ValueError)"
  shows "alipay_form_get_invalid_parameters self data = Inl ValueError"
  using assms
proof
  assume "\<exists>s. data ''mc_gross'' = Some s \<and> py_float s = Inl ValueError"
  then have "check_mc_gross self data = Inl ValueError"
    by (auto simp: check_mc_gross_def mc_gross_float_def)
  then show ?thesis by (simp add: alipay_form_get_invalid_parameters_def)
next
  assume "\<exists>s. data ''handling_amount'' = Some s \<and> py_float s = Inl ValueError"
  then have h: "check_handling_amount self data = Inl ValueError"
    by (auto simp: check_handling_amount_def)
  show ?thesis
  proof (cases "check_mc_gross self data")
    case (Inl e)
    then have "e = ValueError"
      by (auto simp: check_mc_gross_def mc_gross_float_def split: sum.splits dest: py_float_error)
    with Inl show ?thesis by (simp add: alipay_form_get_invalid_parameters_def)
  next
    case (Inr g)
    with h show ?thesis by (simp add: alipay_form_get_invalid_parameters_def)
  qed
qed

theorem unparsable_amount_raises_witness:
  "(ex_data(''mc_gross'' \<mapsto> ''abc'')) ''mc_gross'' = Some ''abc''
   \<and> (ex_data(''handling_amount'' \<mapsto> ''abc'')) ''handling_amount'' = Some ''abc''
   \<and> py_float ''abc'' = Inl ValueError
   \<and> alipay_form_get_invalid_parameters ex_tx (ex_data(''mc_gross'' \<mapsto> ''abc''))
       = Inl ValueError
   \<and> alipay_form_get_invalid_parameters ex_tx (ex_data(''handling_amount'' \<mapsto> ''abc''))
       = Inl ValueError"
proof -
  have a: "(\<exists>s. (ex_data(''mc_gross'' \<mapsto> ''abc'')) ''mc_gross'' = Some s
              \<and> py_float s = Inl ValueError) \<or>
           (\<exists>s. (ex_data(''mc_gross'' \<mapsto> ''abc'')) ''handling_amount'' = Some s
              \<and> py_float s = Inl ValueError)"
    by (simp add: py_float_abc)
  have b: "(\<exists>s. (ex_data(''handling_amount'' \<mapsto> ''abc'')) ''mc_gross'' = Some s
              \<and> py_float s = Inl ValueError) \<or>
           (\<exists>s. (ex_data(''handling_amount'' \<mapsto> ''abc'')) ''handling_amount'' = Some s
              \<and> py_float s = Inl ValueError)"
    by (simp add: py_float_abc)
  have r1: "alipay_form_get_invalid_parameters ex_tx (ex_data(''mc_gross'' \<mapsto> ''abc''))
       = Inl ValueError"
    by (rule unparsable_amount_raises [OF a])
  have r2: "alipay_form_get_invalid_parameters ex_tx (ex_data(''handling_amount'' \<mapsto> ''abc''))
       = Inl ValueError"
    by (rule unparsable_amount_raises [OF b])
  show ?thesis
    by (intro conjI r1 r2 py_float_abc) simp_all
qed

end
